theory Spec2Isabelle
  imports Complex_Main "HOL-Library.Word"
begin

unbundle bit_operations_syntax

section \<open>C types and constants\<close>

text \<open>
  The library is C for Intel Macs: \<open>unsigned int\<close>, \<open>uint32_t\<close> and \<open>kern_return_t\<close>
  (an \<open>int\<close>) are 32 bits wide, \<open>uint8_t\<close> and \<open>char\<close> are 8 bits wide, and \<open>char\<close> is
  signed. Arithmetic on 32-bit values wraps around; where C leaves a signed shift
  undefined (a negative character shifted left in \<open>to_uint32_t\<close>) the model keeps the
  low 32 bits, as the compiled code does. An array is the list of its elements. A C
  string is the list of its characters up to the terminating NUL; the end of a list stands
  for that terminator. \<open>double\<close> values are modelled as reals.
\<close>

type_synonym uint8_t = "8 word"
type_synonym uint32_t = "32 word"
type_synonym c_char = "8 word"
type_synonym kern_return_t = "32 word"

text \<open>A string literal of the source, as the characters it holds.\<close>

definition c_literal :: "string \<Rightarrow> c_char list" where
  "c_literal s = map of_char s"

text \<open>\<open>strlen\<close>: the number of characters before the first NUL.\<close>

definition strlen :: "c_char list \<Rightarrow> nat" where
  "strlen s = length (takeWhile (\<lambda>c. c \<noteq> 0) s)"

text \<open>\<open>strcmp\<close>: compares as unsigned characters and stops at the first NUL.\<close>

fun strcmp :: "c_char list \<Rightarrow> c_char list \<Rightarrow> int" where
  "strcmp [] [] = 0"
| "strcmp [] (c2 # s2) = - uint c2"
| "strcmp (c1 # s1) [] = uint c1"
| "strcmp (c1 # s1) (c2 # s2) =
     (if c1 \<noteq> c2 then uint c1 - uint c2
      else if c1 = 0 then 0
      else strcmp s1 s2)"

text \<open>
  Constants of the system headers (IOKit's \<open>IOReturn.h\<close> and Mach's \<open>error.h\<close>):
  \<open>kIOReturnSuccess\<close> is 0, \<open>kIOReturnBadArgument\<close> is \<open>iokit_common_err(0x2c2)\<close>, and
  \<open>err_get_code\<close> keeps the low 14 bits of a return code.
\<close>

definition kIOReturnSuccess :: kern_return_t where
  "kIOReturnSuccess = 0"

definition kIOReturnBadArgument :: kern_return_t where
  "kIOReturnBadArgument = 0xE00002C2"

definition err_get_code :: "kern_return_t \<Rightarrow> kern_return_t" where
  "err_get_code err = err AND 0x3fff"

text \<open>
  Modelled from the spec: the header \<open>smc.h\<close> is not among the sources. A key has
  exactly 4 characters and a type tag is a 4-character text (section 3 of the
  specification; the comments of \<open>to_uint32_t\<close> and \<open>to_string\<close> say the same), and the
  type tags of the two fixed-point formats are the texts \<open>fpe2\<close> and \<open>sp78\<close>.
\<close>

definition SMC_KEY_SIZE :: nat where
  "SMC_KEY_SIZE = 4"

definition DATA_TYPE_SIZE :: nat where
  "DATA_TYPE_SIZE = 4"

definition DATA_TYPE_FPE2 :: "c_char list" where
  "DATA_TYPE_FPE2 = c_literal ''fpe2''"

definition DATA_TYPE_SP78 :: "c_char list" where
  "DATA_TYPE_SP78 = c_literal ''sp78''"

text \<open>
  The numeric values that \<open>smc.h\<close> gives to the operation selectors and to the
  controller's success status are not known: they are parameters of the model, and every
  theorem holds for all of them.
\<close>

record smc_h =
  kSMCSuccess :: uint8_t
  kSMCGetKeyInfo :: uint8_t
  kSMCReadKey :: uint8_t
  kSMCWriteKey :: uint8_t

text \<open>
  Modelled from the spec: the structures of \<open>smc.h\<close>, with the fields that \<open>smc.c\<close>
  reads or writes (section 6 of the specification: a 32-bit encoded key, an 8-bit
  operation selector, a metadata sub-record of size and 32-bit type tag, a status, and a
  32-byte payload). Field names carry a prefix for their structure: \<open>ki_\<close> for
  \<open>SMCKeyInfoData\<close>, \<open>ps_\<close> for \<open>SMCParamStruct\<close>, \<open>rs_\<close> for \<open>smc_return_t\<close>, whose
  \<open>dataType\<close> holds the 4 characters of the tag and a terminating NUL. The temperature
  units are the three cases of the \<open>switch\<close> in \<open>get_tmp\<close>.
\<close>

record SMCKeyInfoData =
  ki_dataSize :: uint32_t
  ki_dataType :: uint32_t

record SMCParamStruct =
  ps_key :: uint32_t
  ps_keyInfo :: SMCKeyInfoData
  ps_result :: uint8_t
  ps_data8 :: uint8_t
  ps_bytes :: "uint8_t list"

record smc_return_t =
  rs_data :: "uint8_t list"
  rs_dataType :: "c_char list"
  rs_dataSize :: uint32_t
  rs_kSMC :: uint8_t

datatype tmp_unit_t = CELSIUS | FAHRENHEIT | KELVIN

text \<open>What \<open>memset(p, 0, sizeof ...)\<close> leaves in each structure.\<close>

definition zero_SMCParamStruct :: SMCParamStruct where
  "zero_SMCParamStruct =
     \<lparr>ps_key = 0, ps_keyInfo = \<lparr>ki_dataSize = 0, ki_dataType = 0\<rparr>,
      ps_result = 0, ps_data8 = 0, ps_bytes = replicate 32 0\<rparr>"

definition zero_smc_return_t :: smc_return_t where
  "zero_smc_return_t =
     \<lparr>rs_data = replicate 32 0, rs_dataType = replicate 5 0, rs_dataSize = 0, rs_kSMC = 0\<rparr>"

section \<open>Type conversion helpers\<close>

text \<open>
  \<open>from_fpe2\<close>: \<open>ans += data[0] << 6; ans += data[1] << 2\<close>. Each byte is promoted to
  \<open>int\<close> before the shift, and the sum is an \<open>unsigned int\<close>.
\<close>

definition from_fpe2 :: "uint8_t list \<Rightarrow> uint32_t" where
  "from_fpe2 data =
     (let ans = 0;
          ans = ans + push_bit 6 (ucast (data ! 0));
          ans = ans + push_bit 2 (ucast (data ! 1))
      in ans)"

text \<open>
  \<open>to_fpe2\<close>: \<open>data[0] = val >> 6; data[1] = (val << 2) ^ (data[0] << 8)\<close>. Storing
  into a \<open>uint8_t\<close> keeps the low 8 bits.
\<close>

definition to_fpe2 :: "uint32_t \<Rightarrow> uint8_t list \<Rightarrow> uint8_t list" where
  "to_fpe2 val data =
     (let data = data[0 := ucast (drop_bit 6 val)];
          data = data[1 := ucast (push_bit 2 val XOR push_bit 8 (ucast (data ! 0)))]
      in data)"

text \<open>
  The encoder as the specification proposes to simplify it:
  \<open>bytes[1] = value << 2\<close>, without the XOR term.
\<close>

definition to_fpe2_simplified :: "uint32_t \<Rightarrow> uint8_t list \<Rightarrow> uint8_t list" where
  "to_fpe2_simplified val data =
     (let data = data[0 := ucast (drop_bit 6 val)];
          data = data[1 := ucast (push_bit 2 val)]
      in data)"

text \<open>
  \<open>to_uint32_t\<close>: zero unless the key has 4 characters; otherwise the loop adds
  \<open>key[i] << shift\<close> for \<open>shift\<close> = 24, 16, 8, 0. \<open>key[i]\<close> is a signed \<open>char\<close> promoted
  to \<open>int\<close>, and \<open>shift\<close> is a \<open>uint32_t\<close>.
\<close>

definition to_uint32_t :: "c_char list \<Rightarrow> uint32_t" where
  "to_uint32_t key =
     (if strlen key \<noteq> SMC_KEY_SIZE then 0
      else fst (fold (\<lambda>i (ans, shift :: uint32_t).
                        (ans + push_bit (unat shift) (scast (key ! i)), shift - 8))
                     [0..<SMC_KEY_SIZE] (0, 24)))"

text \<open>
  \<open>to_string\<close>: \<open>dataType[i] = (val >> shift) & 0xff\<close> for \<open>shift\<close> = 24, 16, 8, 0,
  written into the caller's buffer; \<open>shift\<close> is an \<open>int\<close>.
\<close>

definition to_string :: "uint32_t \<Rightarrow> c_char list \<Rightarrow> c_char list" where
  "to_string val dataType =
     fst (fold (\<lambda>i (dataType, shift :: int).
                  (dataType[i := ucast (drop_bit (nat shift) val AND 0xff)], shift - 8))
               [0..<DATA_TYPE_SIZE] (dataType, 24))"

section \<open>Temperature conversion helpers\<close>

definition to_fahrenheit :: "real \<Rightarrow> real" where
  "to_fahrenheit tmp = (tmp * 1.8) + 32"

definition to_kelvin :: "real \<Rightarrow> real" where
  "to_kelvin tmp = tmp + 273.15"

section \<open>The transport and the world around the library\<close>

text \<open>
  \<open>IOConnectCallStructMethod\<close> belongs to the operating system. It is a parameter of the
  model: given the state of the driver and the controller, the request and the present
  contents of the response buffer, it yields the channel's return code, the response
  buffer as the call leaves it, and the new state. The connection \<open>conn\<close> and the selector
  \<open>kSMCHandleYPCEvent\<close> are the same in every call and are part of that parameter.
\<close>

type_synonym 'd transport =
  "'d \<Rightarrow> SMCParamStruct \<Rightarrow> SMCParamStruct \<Rightarrow> kern_return_t \<times> SMCParamStruct \<times> 'd"

text \<open>
  The world the library acts on: the state behind the connection, and the text printed on
  standard output. It also keeps the requests handed to the transport so far, oldest
  first: the record a test's fake transport would keep to count the calls.
\<close>

record 'd world =
  dev :: 'd
  calls :: "SMCParamStruct list"
  stdout :: string

section \<open>Private functions\<close>

text \<open>
  \<open>call_smc\<close>: one call of the transport; a return code other than success is reduced
  to its error code by \<open>err_get_code\<close>.
\<close>

definition call_smc ::
  "'d transport \<Rightarrow> SMCParamStruct \<Rightarrow> SMCParamStruct \<Rightarrow> 'd world
     \<Rightarrow> kern_return_t \<times> SMCParamStruct \<times> 'd world" where
  "call_smc io inputStruct outputStruct w =
     (let (result, outputStruct, d) = io (dev w) inputStruct outputStruct;
          w = w\<lparr>dev := d, calls := calls w @ [inputStruct]\<rparr>;
          result = (if result \<noteq> kIOReturnSuccess then err_get_code result else result)
      in (result, outputStruct, w))"

text \<open>
  \<open>read_smc\<close>: clears the three structures, asks for the key's info, and only when both
  the channel and the controller report success stores size and type and asks for the
  data. The response buffer is not cleared between the two calls.
\<close>

definition read_smc ::
  "smc_h \<Rightarrow> 'd transport \<Rightarrow> c_char list \<Rightarrow> 'd world
     \<Rightarrow> kern_return_t \<times> smc_return_t \<times> 'd world" where
  "read_smc h io key w =
     (let inputStruct = zero_SMCParamStruct;
          outputStruct = zero_SMCParamStruct;
          result_smc = zero_smc_return_t;
          inputStruct = inputStruct\<lparr>ps_key := to_uint32_t key\<rparr>;
          inputStruct = inputStruct\<lparr>ps_data8 := kSMCGetKeyInfo h\<rparr>;
          (result, outputStruct, w) = call_smc io inputStruct outputStruct w;
          result_smc = result_smc\<lparr>rs_kSMC := ps_result outputStruct\<rparr>
      in if result \<noteq> kIOReturnSuccess \<or> ps_result outputStruct \<noteq> kSMCSuccess h
         then (result, result_smc, w)
         else
           let result_smc = result_smc\<lparr>rs_dataSize := ki_dataSize (ps_keyInfo outputStruct)\<rparr>;
               result_smc = result_smc\<lparr>rs_dataType :=
                 to_string (ki_dataType (ps_keyInfo outputStruct)) (rs_dataType result_smc)\<rparr>;
               inputStruct = inputStruct\<lparr>ps_keyInfo :=
                 (ps_keyInfo inputStruct)\<lparr>ki_dataSize := ki_dataSize (ps_keyInfo outputStruct)\<rparr>\<rparr>;
               inputStruct = inputStruct\<lparr>ps_data8 := kSMCReadKey h\<rparr>;
               (result, outputStruct, w) = call_smc io inputStruct outputStruct w;
               result_smc = result_smc\<lparr>rs_kSMC := ps_result outputStruct\<rparr>
           in if result \<noteq> kIOReturnSuccess \<or> ps_result outputStruct \<noteq> kSMCSuccess h
              then (result, result_smc, w)
              else
                let result_smc = result_smc\<lparr>rs_data := ps_bytes outputStruct\<rparr>
                in (result, result_smc, w))"

text \<open>
  \<open>write_smc\<close>: the caller's record comes in with \<open>dataSize\<close> and \<open>data\<close> set and goes
  out with \<open>kSMC\<close> updated. The data to write is copied into the response buffer
  (\<open>memcpy(outputStruct.bytes, ...)\<close>), as the source has it.
\<close>

definition write_smc ::
  "smc_h \<Rightarrow> 'd transport \<Rightarrow> c_char list \<Rightarrow> smc_return_t \<Rightarrow> 'd world
     \<Rightarrow> kern_return_t \<times> smc_return_t \<times> 'd world" where
  "write_smc h io key result_smc w =
     (let inputStruct = zero_SMCParamStruct;
          outputStruct = zero_SMCParamStruct;
          inputStruct = inputStruct\<lparr>ps_key := to_uint32_t key\<rparr>;
          inputStruct = inputStruct\<lparr>ps_data8 := kSMCGetKeyInfo h\<rparr>;
          (result, outputStruct, w) = call_smc io inputStruct outputStruct w;
          result_smc = result_smc\<lparr>rs_kSMC := ps_result outputStruct\<rparr>
      in if result \<noteq> kIOReturnSuccess \<or> ps_result outputStruct \<noteq> kSMCSuccess h
         then (result, result_smc, w)
         else if rs_dataSize result_smc \<noteq> ki_dataSize (ps_keyInfo outputStruct)
         then (kIOReturnBadArgument, result_smc, w)
         else
           let inputStruct = inputStruct\<lparr>ps_data8 := kSMCWriteKey h\<rparr>;
               inputStruct = inputStruct\<lparr>ps_keyInfo :=
                 (ps_keyInfo inputStruct)\<lparr>ki_dataSize := ki_dataSize (ps_keyInfo outputStruct)\<rparr>\<rparr>;
               outputStruct = outputStruct\<lparr>ps_bytes := rs_data result_smc\<rparr>;
               (result, outputStruct, w) = call_smc io inputStruct outputStruct w;
               result_smc = result_smc\<lparr>rs_kSMC := ps_result outputStruct\<rparr>
           in (result, result_smc, w))"

section \<open>Public functions\<close>

text \<open>
  \<open>is_key_valid\<close>: a key of the wrong length prints an error line and gives \<open>false\<close>
  without a read; otherwise the answer is whether the read succeeded on both layers.
\<close>

definition is_key_valid ::
  "smc_h \<Rightarrow> 'd transport \<Rightarrow> c_char list \<Rightarrow> 'd world \<Rightarrow> bool \<times> 'd world" where
  "is_key_valid h io key w =
     (let ans = False
      in if strlen key \<noteq> SMC_KEY_SIZE
         then (ans, w\<lparr>stdout := stdout w @ ''ERROR: Invalid key size - must be 4 chars'' @ [CHR 0x0A]\<rparr>)
         else
           let (result, result_smc, w) = read_smc h io key w;
               ans = (if result = kIOReturnSuccess \<and> rs_kSMC result_smc = kSMCSuccess h
                      then True else ans)
           in (ans, w))"

text \<open>
  \<open>get_tmp\<close>: zero unless the read returns success with size 2 and type \<open>sp78\<close>;
  otherwise the first data byte, as degrees Celsius, converted to the unit asked for.
\<close>

definition get_tmp ::
  "smc_h \<Rightarrow> 'd transport \<Rightarrow> c_char list \<Rightarrow> tmp_unit_t \<Rightarrow> 'd world \<Rightarrow> real \<times> 'd world" where
  "get_tmp h io key unit w =
     (let (result, result_smc, w) = read_smc h io key w
      in if \<not> (result = kIOReturnSuccess \<and>
                rs_dataSize result_smc = 2 \<and>
                strcmp (rs_dataType result_smc) DATA_TYPE_SP78 = 0)
         then (0.0, w)
         else
           let tmp = real (unat (rs_data result_smc ! 0));
               tmp = (case unit of
                        CELSIUS \<Rightarrow> tmp
                      | FAHRENHEIT \<Rightarrow> to_fahrenheit tmp
                      | KELVIN \<Rightarrow> to_kelvin tmp)
           in (tmp, w))"

text \<open>
  \<open>get_fan_rpm\<close>: reads the key \<open>F0Ac\<close>; zero unless the read returns success with size 2
  and type \<open>fpe2\<close>. The parameter \<open>fan_num\<close> is not used (\<open>FIXME: Use fan_num for key\<close>).
\<close>

definition get_fan_rpm ::
  "smc_h \<Rightarrow> 'd transport \<Rightarrow> uint32_t \<Rightarrow> 'd world \<Rightarrow> uint32_t \<times> 'd world" where
  "get_fan_rpm h io fan_num w =
     (let (result, result_smc, w) = read_smc h io (c_literal ''F0Ac'') w
      in if \<not> (result = kIOReturnSuccess \<and>
                rs_dataSize result_smc = 2 \<and>
                strcmp (rs_dataType result_smc) DATA_TYPE_FPE2 = 0)
         then (0, w)
         else (from_fpe2 (rs_data result_smc), w))"

text \<open>
  \<open>set_fan_min_rpm\<close>: writes the fpe2 encoding of \<open>rpm\<close>, with size 2, to the key
  \<open>F0Mn\<close>. The parameters \<open>fan_num\<close> and \<open>auth\<close> are not used.
\<close>

definition set_fan_min_rpm ::
  "smc_h \<Rightarrow> 'd transport \<Rightarrow> uint32_t \<Rightarrow> uint32_t \<Rightarrow> bool \<Rightarrow> 'd world \<Rightarrow> bool \<times> 'd world" where
  "set_fan_min_rpm h io fan_num rpm auth w =
     (let ans = False;
          result_smc = zero_smc_return_t;
          result_smc = result_smc\<lparr>rs_dataSize := 2\<rparr>;
          result_smc = result_smc\<lparr>rs_data := to_fpe2 rpm (rs_data result_smc)\<rparr>;
          (result, result_smc, w) = write_smc h io (c_literal ''F0Mn'') result_smc w;
          ans = (if result = kIOReturnSuccess \<and> rs_kSMC result_smc = kSMCSuccess h
                 then True else ans)
      in (ans, w))"

section \<open>Vocabulary of the specification\<close>

text \<open>
  The two requests of a read transaction, as \<open>read_smc\<close> builds them: the key-info
  request of the metadata phase (\<open>write_smc\<close> builds the same one), and the read request
  of the data phase, which echoes the size the controller reported.
\<close>

definition key_info_request :: "smc_h \<Rightarrow> c_char list \<Rightarrow> SMCParamStruct" where
  "key_info_request h key =
     zero_SMCParamStruct\<lparr>ps_key := to_uint32_t key, ps_data8 := kSMCGetKeyInfo h\<rparr>"

definition read_key_request :: "smc_h \<Rightarrow> c_char list \<Rightarrow> uint32_t \<Rightarrow> SMCParamStruct" where
  "read_key_request h key dataSize =
     zero_SMCParamStruct\<lparr>ps_key := to_uint32_t key,
       ps_keyInfo := \<lparr>ki_dataSize = dataSize, ki_dataType = 0\<rparr>, ps_data8 := kSMCReadKey h\<rparr>"

text \<open>The write request of a write transaction's data phase, as \<open>write_smc\<close> builds it.\<close>

definition write_key_request :: "smc_h \<Rightarrow> c_char list \<Rightarrow> uint32_t \<Rightarrow> SMCParamStruct" where
  "write_key_request h key dataSize =
     zero_SMCParamStruct\<lparr>ps_key := to_uint32_t key,
       ps_keyInfo := \<lparr>ki_dataSize = dataSize, ki_dataType = 0\<rparr>, ps_data8 := kSMCWriteKey h\<rparr>"

text \<open>A printable ASCII character: from space to tilde.\<close>

definition printable :: "c_char \<Rightarrow> bool" where
  "printable c = (0x20 \<le> c \<and> c \<le> 0x7e)"

section \<open>A fake controller\<close>

text \<open>
  A transport for concrete runs. Its state fixes, for a key-info request and for any
  other request, the return code of the channel and the status the controller reports,
  together with the metadata and the payload it answers with. A call whose channel fails
  leaves the response buffer as it was.
\<close>

record fake_smc =
  f_info_return :: kern_return_t
  f_info_status :: uint8_t
  f_keyInfo :: SMCKeyInfoData
  f_data_return :: kern_return_t
  f_data_status :: uint8_t
  f_bytes :: "uint8_t list"

definition fake_call :: "smc_h \<Rightarrow> fake_smc transport" where
  "fake_call h d inputStruct outputStruct =
     (if ps_data8 inputStruct = kSMCGetKeyInfo h
      then (if f_info_return d \<noteq> 0 then (f_info_return d, outputStruct, d)
            else (0, outputStruct\<lparr>ps_keyInfo := f_keyInfo d, ps_result := f_info_status d\<rparr>, d))
      else (if f_data_return d \<noteq> 0 then (f_data_return d, outputStruct, d)
            else (0, outputStruct\<lparr>ps_bytes := f_bytes d, ps_result := f_data_status d\<rparr>, d)))"

text \<open>The values Apple's controller interface gives to the constants of \<open>smc.h\<close>.\<close>

definition apple_smc_h :: smc_h where
  "apple_smc_h = \<lparr>kSMCSuccess = 0, kSMCGetKeyInfo = 9, kSMCReadKey = 5, kSMCWriteKey = 6\<rparr>"

definition fresh_world :: "'d \<Rightarrow> 'd world" where
  "fresh_world d = \<lparr>dev = d, calls = [], stdout = []\<rparr>"

text \<open>
  Three controllers: one that knows no key (status \<open>0x84\<close>, key not found), one whose
  channel fails with \<open>kIOReturnError\<close>, and a healthy one that reports a key of the given
  size and type and answers the data request with the given payload.
\<close>

definition absent_key :: fake_smc where
  "absent_key =
     \<lparr>f_info_return = 0, f_info_status = 0x84,
      f_keyInfo = \<lparr>ki_dataSize = 0, ki_dataType = 0\<rparr>,
      f_data_return = 0, f_data_status = 0x84, f_bytes = replicate 32 0\<rparr>"

definition dead_channel :: fake_smc where
  "dead_channel =
     \<lparr>f_info_return = 0xE00002BC, f_info_status = 0,
      f_keyInfo = \<lparr>ki_dataSize = 0, ki_dataType = 0\<rparr>,
      f_data_return = 0xE00002BC, f_data_status = 0, f_bytes = replicate 32 0\<rparr>"

definition sensor :: "uint32_t \<Rightarrow> uint32_t \<Rightarrow> uint8_t list \<Rightarrow> fake_smc" where
  "sensor dataSize dataType payload =
     \<lparr>f_info_return = 0, f_info_status = 0,
      f_keyInfo = \<lparr>ki_dataSize = dataSize, ki_dataType = dataType\<rparr>,
      f_data_return = 0, f_data_status = 0,
      f_bytes = payload @ replicate (32 - length payload) 0\<rparr>"

section \<open>Facts about words\<close>

lemma unat_ucast_8_32: "unat (ucast (w :: 8 word) :: 32 word) = unat w"
proof -
  have "unat w < 2 ^ 8" using unsigned_less [of w] by simp
  then show ?thesis by (simp add: unsigned_ucast_eq take_bit_eq_mod)
qed

lemma unat_ucast_32_8: "unat (ucast (w :: 32 word) :: 8 word) = unat w mod 256"
  by (simp add: unsigned_ucast_eq take_bit_eq_mod)

lemma unat_push_bit_32: "unat (push_bit k (w :: 32 word)) = (unat w * 2 ^ k) mod 2 ^ 32"
  by (subst unsigned_push_bit_eq) (simp add: take_bit_eq_mod push_bit_eq_mult)

lemma unat_drop_bit_32: "unat (drop_bit k (w :: 32 word)) = unat w div 2 ^ k"
  by (subst unat_drop_bit_eq) (simp add: drop_bit_eq_div)

text \<open>The XOR term of \<open>to_fpe2\<close> lies above the 8 bits that the store keeps.\<close>

lemma xor_above_byte:
  "(ucast (push_bit 2 (val :: 32 word) XOR push_bit 8 (x :: 32 word)) :: 8 word)
     = ucast (push_bit 2 val)"
  by (rule bit_word_eqI) (auto simp add: bit_simps)

text \<open>A character below 128 is not negative: promoting it to \<open>int\<close> does not sign-extend.\<close>

lemma ascii_bit7:
  assumes "(c :: 8 word) \<le> 0x7f"
  shows "\<not> bit c 7"
proof -
  from assms have le: "unat c \<le> 127" by (simp add: word_le_nat_alt)
  have "bit c 7 = bit (unat c) 7" by (simp add: bit_unsigned_iff)
  moreover have "\<not> bit (unat c) 7" using le by (simp add: bit_iff_odd)
  ultimately show ?thesis by simp
qed

lemma scast_ascii:
  assumes "(c :: 8 word) \<le> 0x7f"
  shows "(scast c :: 32 word) = ucast c"
proof (rule bit_word_eqI)
  fix n
  assume "n < LENGTH(32)"
  have b7: "\<not> bit c 7" using assms by (rule ascii_bit7)
  show "bit (scast c :: 32 word) n = bit (ucast c :: 32 word) n"
  proof (cases "n < 7")
    case True
    then show ?thesis by (simp add: bit_simps min_def)
  next
    case False
    have "\<not> bit c n"
    proof
      assume "bit c n"
      then have "n < 8" using bit_imp_le_length [of c n] by simp
      with False have "n = 7" by simp
      with \<open>bit c n\<close> b7 show False by simp
    qed
    with False b7 show ?thesis by (simp add: bit_simps min_def)
  qed
qed

text \<open>Four bytes packed by shifts of 24, 16, 8 and 0 do not overlap.\<close>

lemma pack_or:
  fixes a b c d :: "8 word"
  shows "push_bit 24 (ucast a) + push_bit 16 (ucast b) + push_bit 8 (ucast c) + (ucast d :: 32 word)
    = ((push_bit 24 (ucast a) OR push_bit 16 (ucast b)) OR push_bit 8 (ucast c)) OR ucast d"
proof -
  have 1: "push_bit 24 (ucast a) + push_bit 16 (ucast b)
      = push_bit 24 (ucast a) OR (push_bit 16 (ucast b) :: 32 word)"
    by (rule disjunctive_add) (auto simp add: bit_simps dest: bit_imp_le_length)
  have 2: "(push_bit 24 (ucast a) OR push_bit 16 (ucast b)) + push_bit 8 (ucast c)
      = (push_bit 24 (ucast a) OR push_bit 16 (ucast b)) OR (push_bit 8 (ucast c) :: 32 word)"
    by (rule disjunctive_add) (auto simp add: bit_simps dest: bit_imp_le_length)
  have 3: "((push_bit 24 (ucast a) OR push_bit 16 (ucast b)) OR push_bit 8 (ucast c)) + ucast d
      = ((push_bit 24 (ucast a) OR push_bit 16 (ucast b)) OR push_bit 8 (ucast c))
          OR (ucast d :: 32 word)"
    by (rule disjunctive_add) (auto simp add: bit_simps dest: bit_imp_le_length)
  show ?thesis by (simp only: 1 2 3)
qed

lemma byte_mask: "(255 :: 32 word) = mask 8"
  by (simp add: mask_eq_exp_minus_1)

lemma unpack:
  fixes a b c d :: "8 word"
  defines "x \<equiv> ((push_bit 24 (ucast a) OR push_bit 16 (ucast b)) OR push_bit 8 (ucast c))
                  OR (ucast d :: 32 word)"
  shows "ucast (drop_bit 24 x AND 0xff) = a"
    and "ucast (drop_bit 16 x AND 0xff) = b"
    and "ucast (drop_bit 8 x AND 0xff) = c"
    and "ucast (x AND 0xff) = d"
  unfolding x_def byte_mask
  by (rule bit_word_eqI; auto simp add: bit_simps dest: bit_imp_le_length)+

lemma unat_pack:
  fixes a b c d :: "8 word"
  shows "unat (push_bit 24 (ucast a) + push_bit 16 (ucast b) + push_bit 8 (ucast c)
               + (ucast d :: 32 word))
     = 2 ^ 24 * unat a + 2 ^ 16 * unat b + 2 ^ 8 * unat c + unat d"
proof -
  have ba: "unat a < 256" using unsigned_less [of a] by simp
  have bb: "unat b < 256" using unsigned_less [of b] by simp
  have bc: "unat c < 256" using unsigned_less [of c] by simp
  have bd: "unat d < 256" using unsigned_less [of d] by simp
  have "unat (push_bit 24 (ucast a) + push_bit 16 (ucast b) + push_bit 8 (ucast c)
              + (ucast d :: 32 word))
     = (((unat a * 2 ^ 24 mod 2 ^ 32 + unat b * 2 ^ 16 mod 2 ^ 32) mod 2 ^ 32
          + unat c * 2 ^ 8 mod 2 ^ 32) mod 2 ^ 32 + unat d) mod 2 ^ 32"
    by (simp only: unat_word_ariths unat_push_bit_32 unat_ucast_8_32) simp
  also have "\<dots> = 2 ^ 24 * unat a + 2 ^ 16 * unat b + 2 ^ 8 * unat c + unat d"
    using ba bb bc bd by simp
  finally show ?thesis .
qed

section \<open>The fpe2 codec\<close>

lemma unat_fpe2_roundtrip:
  fixes v :: "32 word"
  assumes "v \<le> 16383"
  shows "unat (push_bit 6 (ucast (ucast (drop_bit 6 v) :: 8 word))
               + push_bit 2 (ucast (ucast (push_bit 2 v) :: 8 word)) :: 32 word)
     = 64 * (unat v div 64) + 16 * (unat v mod 64)"
proof -
  have n: "unat v \<le> 16383" using assms by (simp add: word_le_nat_alt)
  have d1: "(unat v * 4) mod 256 = 4 * (unat v mod 64)"
    by (simp add: mult_mod_right mult.commute)
  have "unat (push_bit 6 (ucast (ucast (drop_bit 6 v) :: 8 word))
              + push_bit 2 (ucast (ucast (push_bit 2 v) :: 8 word)) :: 32 word)
    = (((unat v div 2 ^ 6) mod 256 * 2 ^ 6) mod 2 ^ 32
        + ((unat v * 2 ^ 2) mod 2 ^ 32 mod 256 * 2 ^ 2) mod 2 ^ 32) mod 2 ^ 32"
    by (simp only: unat_word_ariths unat_push_bit_32 unat_ucast_8_32 unat_ucast_32_8
        unat_drop_bit_32) simp
  also have "\<dots> = 64 * (unat v div 64) + 16 * (unat v mod 64)"
    using n d1 by simp
  finally show ?thesis .
qed

lemma from_to_fpe2:
  assumes "2 \<le> length data"
  shows "from_fpe2 (to_fpe2 v data)
     = push_bit 6 (ucast (ucast (drop_bit 6 v) :: 8 word))
       + push_bit 2 (ucast (ucast (push_bit 2 v) :: 8 word))"
proof -
  from assms obtain d0 d1 rest where "data = d0 # d1 # rest"
    by (cases data; cases "tl data") auto
  then show ?thesis
    by (simp add: from_fpe2_def to_fpe2_def xor_above_byte)
qed

text \<open>
  C8. The XOR term in \<open>to_fpe2\<close> is a no-op: the byte stored as \<open>data[1]\<close> by
  \<open>(val << 2) ^ (data[0] << 8)\<close>, truncated to 8 bits, is \<open>val << 2\<close> truncated to 8
  bits, whatever \<open>data[0]\<close> holds, so \<open>to_fpe2\<close> and the simplified encoder with
  \<open>data[1] = val << 2\<close> produce the same bytes for every value.
\<close>

theorem to_fpe2_xor_noop:
  "(ucast (push_bit 2 val XOR push_bit 8 (ucast (d0 :: uint8_t) :: uint32_t)) :: uint8_t)
     = ucast (push_bit 2 val)
   \<and> to_fpe2 val data = to_fpe2_simplified val data"
  by (simp add: to_fpe2_def to_fpe2_simplified_def xor_above_byte)

text \<open>
  C1, as amended. For every unsigned integer \<open>v\<close> in [0, 16383], decoding the fpe2
  encoding of \<open>v\<close> yields \<open>64 * (v div 64) + 16 * (v mod 64)\<close>: the low six bits of \<open>v\<close>
  come back shifted left by four. The round trip gives \<open>v\<close> back exactly when \<open>v\<close> is a
  multiple of 64.
\<close>

theorem fpe2_roundtrip:
  assumes "v \<le> 16383" and "2 \<le> length data"
  shows "unat (from_fpe2 (to_fpe2 v data)) = 64 * (unat v div 64) + 16 * (unat v mod 64)
       \<and> (from_fpe2 (to_fpe2 v data) = v \<longleftrightarrow> unat v mod 64 = 0)"
proof -
  define q where "q = unat v div 64"
  define m where "m = unat v mod 64"
  have n: "unat v = 64 * q + m"
    by (simp add: q_def m_def)
  have r: "unat (from_fpe2 (to_fpe2 v data)) = 64 * q + 16 * m"
    using assms unfolding q_def m_def by (simp only: from_to_fpe2 unat_fpe2_roundtrip)
  have "from_fpe2 (to_fpe2 v data) = v \<longleftrightarrow> unat (from_fpe2 (to_fpe2 v data)) = unat v"
    by (simp add: word_unat_eq_iff)
  also have "\<dots> \<longleftrightarrow> 64 * q + 16 * m = 64 * q + m"
    by (simp only: r n [symmetric])
  also have "\<dots> \<longleftrightarrow> m = 0"
    by simp
  finally show ?thesis using r unfolding q_def m_def by simp
qed

theorem fpe2_roundtrip_witness:
  "(200 :: uint32_t) \<le> 16383 \<and> 2 \<le> length (replicate 32 (0 :: uint8_t))
   \<and> unat (from_fpe2 (to_fpe2 200 (replicate 32 0))) = 320
   \<and> from_fpe2 (to_fpe2 200 (replicate 32 0)) \<noteq> 200"
  using fpe2_roundtrip [of 200 "replicate 32 0"] by simp

text \<open>
  The claim as stated fails: 4 is a multiple of 4 in range, and its encoding decodes to
  64; 1 is not a multiple of 4, and its encoding decodes to 16, not to 0.
\<close>

theorem fpe2_roundtrip_counterexample:
  "(4 :: uint32_t) \<le> 16383 \<and> unat (4 :: uint32_t) mod 4 = 0
   \<and> from_fpe2 (to_fpe2 4 (replicate 32 0)) = 64
   \<and> from_fpe2 (to_fpe2 4 (replicate 32 0)) \<noteq> 4
   \<and> from_fpe2 (to_fpe2 1 (replicate 32 0)) = 16"
  by (simp add: from_fpe2_def to_fpe2_def)

section \<open>The key codec\<close>

lemma to_uint32_t_4:
  "strlen [a, b, c, d] = 4 \<Longrightarrow> to_uint32_t [a, b, c, d] =
     push_bit 24 (scast a) + push_bit 16 (scast b) + push_bit 8 (scast c) + scast d"
  by (simp add: to_uint32_t_def SMC_KEY_SIZE_def upt_rec)

lemma to_string_4:
  "to_string val (p # q # r # s # rest) =
     ucast (drop_bit 24 val AND 0xff) # ucast (drop_bit 16 val AND 0xff)
       # ucast (drop_bit 8 val AND 0xff) # ucast (val AND 0xff) # rest"
  by (simp add: to_string_def DATA_TYPE_SIZE_def upt_rec)

lemma printable_nonzero: "printable c \<Longrightarrow> c \<noteq> 0"
  by (auto simp add: printable_def)

lemma printable_ascii: "printable c \<Longrightarrow> c \<le> 0x7f"
  by (simp add: printable_def word_le_nat_alt)

lemma length_4E:
  assumes "length xs = 4"
  obtains a b c d where "xs = [a, b, c, d]"
  using assms by (auto simp add: length_Suc_conv eval_nat_numeral)

lemma length_ge_4E:
  assumes "4 \<le> length xs"
  obtains p q r s rest where "xs = p # q # r # s # rest"
proof -
  from assms have "length (take 4 xs) = 4" by simp
  then obtain p q r s where "take 4 xs = [p, q, r, s]" by (rule length_4E)
  then have "xs = p # q # r # s # drop 4 xs"
    by (metis append_take_drop_id append_Cons append_Nil)
  then show ?thesis by (rule that)
qed

text \<open>
  C7. For every 4-character key of printable ASCII characters, encoding it with
  \<open>to_uint32_t\<close> and decoding the result with \<open>to_string\<close> (into any buffer with room
  for a type tag) reproduces the 4 characters; the encoding is the big-endian packing,
  character 0 in the most significant byte.
\<close>

theorem key_roundtrip:
  assumes "length key = 4" and "\<forall>c \<in> set key. printable c"
    and "DATA_TYPE_SIZE \<le> length dataType"
  shows "take 4 (to_string (to_uint32_t key) dataType) = key
       \<and> unat (to_uint32_t key)
           = 2 ^ 24 * unat (key ! 0) + 2 ^ 16 * unat (key ! 1) + 2 ^ 8 * unat (key ! 2)
             + unat (key ! 3)"
proof -
  from assms(1) obtain a b c d where key: "key = [a, b, c, d]"
    by (rule length_4E)
  from assms(3) obtain p q r s rest where buf: "dataType = p # q # r # s # rest"
    unfolding DATA_TYPE_SIZE_def by (rule length_ge_4E)
  from assms(2) key have pr: "printable a" "printable b" "printable c" "printable d"
    by simp_all
  then have "strlen key = 4"
    unfolding key by (simp add: strlen_def printable_nonzero)
  then have "to_uint32_t key
      = push_bit 24 (scast a) + push_bit 16 (scast b) + push_bit 8 (scast c) + scast d"
    unfolding key by (rule to_uint32_t_4)
  then have packed: "to_uint32_t key
      = push_bit 24 (ucast a) + push_bit 16 (ucast b) + push_bit 8 (ucast c) + ucast d"
    using pr by (simp add: scast_ascii printable_ascii)
  have "to_string (to_uint32_t key) dataType = a # b # c # d # rest"
    unfolding buf to_string_4 packed pack_or by (simp only: unpack)
  then have "take 4 (to_string (to_uint32_t key) dataType) = key"
    by (simp add: key)
  moreover have "unat (to_uint32_t key)
      = 2 ^ 24 * unat (key ! 0) + 2 ^ 16 * unat (key ! 1) + 2 ^ 8 * unat (key ! 2)
        + unat (key ! 3)"
    by (simp add: key packed [unfolded key] unat_pack)
  ultimately show ?thesis by simp
qed

theorem key_roundtrip_witness:
  "length (c_literal ''TC0D'') = 4 \<and> list_all printable (c_literal ''TC0D'')
   \<and> DATA_TYPE_SIZE \<le> length (replicate 5 (0 :: c_char))
   \<and> unat (to_uint32_t (c_literal ''TC0D'')) = 0x54433044
   \<and> take 4 (to_string (to_uint32_t (c_literal ''TC0D'')) (replicate 5 0))
       = c_literal ''TC0D''"
proof -
  have 1: "length (c_literal ''TC0D'') = 4" by (simp add: c_literal_def)
  have 2: "\<forall>c \<in> set (c_literal ''TC0D''). printable c"
    by (simp add: c_literal_def printable_def)
  have 3: "DATA_TYPE_SIZE \<le> length (replicate 5 (0 :: c_char))"
    by (simp add: DATA_TYPE_SIZE_def)
  from key_roundtrip [OF 1 2 3] 1 2 3 show ?thesis
    by (simp add: c_literal_def printable_def)
qed

section \<open>The two-phase transactions\<close>

text \<open>Every call of \<open>call_smc\<close> hands exactly one request to the transport and prints nothing.\<close>

lemma call_smc_calls:
  assumes "call_smc io inputStruct outputStruct w = (result, out, w')"
  shows "calls w' = calls w @ [inputStruct]" and "stdout w' = stdout w"
  using assms by (auto simp add: call_smc_def Let_def split: prod.splits)

text \<open>\<open>read_smc\<close> and \<open>write_smc\<close>, phase by phase.\<close>

lemma read_smc_phases:
  "read_smc h io key w =
     (case call_smc io (key_info_request h key) zero_SMCParamStruct w of
        (r1, out1, w1) \<Rightarrow>
          if r1 \<noteq> kIOReturnSuccess \<or> ps_result out1 \<noteq> kSMCSuccess h
          then (r1, zero_smc_return_t\<lparr>rs_kSMC := ps_result out1\<rparr>, w1)
          else
            (case call_smc io (read_key_request h key (ki_dataSize (ps_keyInfo out1))) out1 w1 of
               (r2, out2, w2) \<Rightarrow>
                 if r2 \<noteq> kIOReturnSuccess \<or> ps_result out2 \<noteq> kSMCSuccess h
                 then (r2, \<lparr>rs_data = replicate 32 0,
                            rs_dataType = to_string (ki_dataType (ps_keyInfo out1)) (replicate 5 0),
                            rs_dataSize = ki_dataSize (ps_keyInfo out1),
                            rs_kSMC = ps_result out2\<rparr>, w2)
                 else (r2, \<lparr>rs_data = ps_bytes out2,
                            rs_dataType = to_string (ki_dataType (ps_keyInfo out1)) (replicate 5 0),
                            rs_dataSize = ki_dataSize (ps_keyInfo out1),
                            rs_kSMC = ps_result out2\<rparr>, w2)))"
  by (simp add: read_smc_def Let_def key_info_request_def read_key_request_def
      zero_SMCParamStruct_def zero_smc_return_t_def split: prod.splits)

lemma write_smc_phases:
  "write_smc h io key result_smc w =
     (case call_smc io (key_info_request h key) zero_SMCParamStruct w of
        (r1, out1, w1) \<Rightarrow>
          if r1 \<noteq> kIOReturnSuccess \<or> ps_result out1 \<noteq> kSMCSuccess h
          then (r1, result_smc\<lparr>rs_kSMC := ps_result out1\<rparr>, w1)
          else if rs_dataSize result_smc \<noteq> ki_dataSize (ps_keyInfo out1)
          then (kIOReturnBadArgument, result_smc\<lparr>rs_kSMC := ps_result out1\<rparr>, w1)
          else
            (case call_smc io (write_key_request h key (ki_dataSize (ps_keyInfo out1)))
                    (out1\<lparr>ps_bytes := rs_data result_smc\<rparr>) w1 of
               (r2, out2, w2) \<Rightarrow> (r2, result_smc\<lparr>rs_kSMC := ps_result out2\<rparr>, w2)))"
  by (simp add: write_smc_def Let_def key_info_request_def write_key_request_def
      zero_SMCParamStruct_def split: prod.splits)

lemma read_smc_stdout:
  assumes "read_smc h io key w = (result, result_smc, w')"
  shows "stdout w' = stdout w"
  using assms
  by (auto simp add: read_smc_phases split: prod.splits if_splits dest!: call_smc_calls(2))

text \<open>A read that fails on either layer leaves the data bytes as \<open>memset\<close> left them.\<close>

lemma read_smc_failed_data:
  assumes "read_smc h io key w = (result, result_smc, w')"
    and "result \<noteq> kIOReturnSuccess \<or> rs_kSMC result_smc \<noteq> kSMCSuccess h"
  shows "rs_data result_smc = replicate 32 0"
  using assms
  by (auto simp add: read_smc_phases zero_smc_return_t_def split: prod.splits if_splits)

text \<open>A transaction issues one or two requests, each for the key it was given.\<close>

lemma read_smc_keys:
  assumes "read_smc h io key w = (result, result_smc, w')"
  shows "map ps_key (drop (length (calls w)) (calls w')) = [to_uint32_t key]
       \<or> map ps_key (drop (length (calls w)) (calls w')) = [to_uint32_t key, to_uint32_t key]"
  using assms
  by (auto simp add: read_smc_phases key_info_request_def read_key_request_def
      split: prod.splits if_splits dest!: call_smc_calls(1))

lemma write_smc_keys:
  assumes "write_smc h io key result_smc w = (result, result_smc', w')"
  shows "map ps_key (drop (length (calls w)) (calls w')) = [to_uint32_t key]
       \<or> map ps_key (drop (length (calls w)) (calls w')) = [to_uint32_t key, to_uint32_t key]"
  using assms
  by (auto simp add: write_smc_phases key_info_request_def write_key_request_def
      split: prod.splits if_splits dest!: call_smc_calls(1))

section \<open>Runs against the fake controller\<close>

lemma fake_key_info:
  "call_smc (fake_call apple_smc_h) (key_info_request apple_smc_h key) out w
     = (if f_info_return (dev w) \<noteq> 0
        then (err_get_code (f_info_return (dev w)), out,
              w\<lparr>calls := calls w @ [key_info_request apple_smc_h key]\<rparr>)
        else (0, out\<lparr>ps_keyInfo := f_keyInfo (dev w), ps_result := f_info_status (dev w)\<rparr>,
              w\<lparr>calls := calls w @ [key_info_request apple_smc_h key]\<rparr>))"
  by (simp add: call_smc_def fake_call_def key_info_request_def
      apple_smc_h_def kIOReturnSuccess_def)

lemma kSMCSuccess_apple: "kSMCSuccess apple_smc_h = 0"
  by (simp add: apple_smc_h_def)

lemma read_fake:
  assumes "f_info_return d = 0" and "f_info_status d = 0"
    and "f_data_return d = 0"
  shows "read_smc apple_smc_h (fake_call apple_smc_h) key (fresh_world d)
     = (0,
        \<lparr>rs_data = (if f_data_status d = 0 then f_bytes d else replicate 32 0),
         rs_dataType = to_string (ki_dataType (f_keyInfo d)) (replicate 5 0),
         rs_dataSize = ki_dataSize (f_keyInfo d), rs_kSMC = f_data_status d\<rparr>,
        \<lparr>dev = d,
         calls = [key_info_request apple_smc_h key,
                  read_key_request apple_smc_h key (ki_dataSize (f_keyInfo d))],
         stdout = []\<rparr>)"
  using assms
  by (simp add: read_smc_phases call_smc_def fake_call_def fresh_world_def
      key_info_request_def read_key_request_def apple_smc_h_def kIOReturnSuccess_def)

lemma read_fake_absent:
  "read_smc apple_smc_h (fake_call apple_smc_h) key (fresh_world absent_key)
     = (0, zero_smc_return_t\<lparr>rs_kSMC := 0x84\<rparr>,
        \<lparr>dev = absent_key, calls = [key_info_request apple_smc_h key], stdout = []\<rparr>)"
  by (simp add: read_smc_phases call_smc_def fake_call_def fresh_world_def absent_key_def
      key_info_request_def apple_smc_h_def kIOReturnSuccess_def)

lemma replicate_5: "replicate 5 x = [x, x, x, x, x]"
  by (simp add: numeral_eq_Suc)

lemma to_string_fpe2: "to_string 0x66706532 (replicate 5 0) = c_literal ''fpe2'' @ [0]"
  by (simp add: to_string_def c_literal_def DATA_TYPE_SIZE_def upt_rec replicate_5)

lemma to_string_sp78: "to_string 0x73703738 (replicate 5 0) = c_literal ''sp78'' @ [0]"
  by (simp add: to_string_def c_literal_def DATA_TYPE_SIZE_def upt_rec replicate_5)

lemma strcmp_fpe2: "strcmp (c_literal ''fpe2'' @ [0]) DATA_TYPE_FPE2 = 0"
  by (simp add: DATA_TYPE_FPE2_def c_literal_def)

lemma strcmp_sp78: "strcmp (c_literal ''sp78'' @ [0]) DATA_TYPE_SP78 = 0"
  by (simp add: DATA_TYPE_SP78_def c_literal_def)

lemma from_fpe2_zero: "from_fpe2 (replicate 32 0) = 0"
  by (simp add: from_fpe2_def)

lemma key_F0Ac: "to_uint32_t (c_literal ''F0Ac'') = 0x46304163"
  by (simp add: to_uint32_t_def c_literal_def strlen_def SMC_KEY_SIZE_def upt_rec)

lemma key_F0Mn: "to_uint32_t (c_literal ''F0Mn'') = 0x46304D6E"
  by (simp add: to_uint32_t_def c_literal_def strlen_def SMC_KEY_SIZE_def upt_rec)

lemma fake_read_key:
  "call_smc (fake_call apple_smc_h) (read_key_request apple_smc_h key n) out w
     = (if f_data_return (dev w) \<noteq> 0
        then (err_get_code (f_data_return (dev w)), out,
              w\<lparr>calls := calls w @ [read_key_request apple_smc_h key n]\<rparr>)
        else (0, out\<lparr>ps_bytes := f_bytes (dev w), ps_result := f_data_status (dev w)\<rparr>,
              w\<lparr>calls := calls w @ [read_key_request apple_smc_h key n]\<rparr>))"
  by (simp add: call_smc_def fake_call_def read_key_request_def
      apple_smc_h_def kIOReturnSuccess_def)

lemma read_fake_sensor:
  "read_smc apple_smc_h (fake_call apple_smc_h) key
       (fresh_world ((sensor n t payload)\<lparr>f_data_status := st\<rparr>))
     = (0,
        \<lparr>rs_data = (if st = 0 then payload @ replicate (32 - length payload) 0
                    else replicate 32 0),
         rs_dataType = to_string t (replicate 5 0), rs_dataSize = n, rs_kSMC = st\<rparr>,
        \<lparr>dev = (sensor n t payload)\<lparr>f_data_status := st\<rparr>,
         calls = [key_info_request apple_smc_h key, read_key_request apple_smc_h key n],
         stdout = []\<rparr>)"
  by (simp add: read_fake sensor_def)

lemma sensor_healthy: "(sensor n t payload)\<lparr>f_data_status := 0\<rparr> = sensor n t payload"
  by (simp add: sensor_def)

text \<open>
  C2. In every read or write transaction, if the metadata phase fails (the channel
  status that \<open>call_smc\<close> returns is not success, or the protocol status of the response
  is not success), the data-phase call is never issued: \<open>read_smc\<close> and \<open>write_smc\<close>
  return with the world as that one call of \<open>call_smc\<close> left it, whose only new request
  is the key-info request.
\<close>

theorem metadata_failure_stops:
  assumes "call_smc io (key_info_request h key) zero_SMCParamStruct w = (result, outputStruct, w')"
    and "result \<noteq> kIOReturnSuccess \<or> ps_result outputStruct \<noteq> kSMCSuccess h"
  shows "read_smc h io key w = (result, zero_smc_return_t\<lparr>rs_kSMC := ps_result outputStruct\<rparr>, w')
       \<and> write_smc h io key result_smc w
           = (result, result_smc\<lparr>rs_kSMC := ps_result outputStruct\<rparr>, w')
       \<and> calls w' = calls w @ [key_info_request h key]"
  using assms call_smc_calls(1) [OF assms(1)]
  by (auto simp add: read_smc_phases write_smc_phases)

theorem metadata_failure_stops_witness:
  "ps_result (fst (snd (call_smc (fake_call apple_smc_h)
       (key_info_request apple_smc_h (c_literal ''TC0D'')) zero_SMCParamStruct
       (fresh_world absent_key)))) \<noteq> kSMCSuccess apple_smc_h
   \<and> read_smc apple_smc_h (fake_call apple_smc_h) (c_literal ''TC0D'') (fresh_world absent_key)
       = (0, zero_smc_return_t\<lparr>rs_kSMC := 0x84\<rparr>,
          \<lparr>dev = absent_key, calls = [key_info_request apple_smc_h (c_literal ''TC0D'')],
           stdout = []\<rparr>)
   \<and> write_smc apple_smc_h (fake_call apple_smc_h) (c_literal ''TC0D'')
         (zero_smc_return_t\<lparr>rs_dataSize := 2\<rparr>) (fresh_world absent_key)
       = (0, zero_smc_return_t\<lparr>rs_dataSize := 2, rs_kSMC := 0x84\<rparr>,
          \<lparr>dev = absent_key, calls = [key_info_request apple_smc_h (c_literal ''TC0D'')],
           stdout = []\<rparr>)
   \<and> (0x2BC :: kern_return_t) \<noteq> kIOReturnSuccess
   \<and> read_smc apple_smc_h (fake_call apple_smc_h) (c_literal ''TC0D'') (fresh_world dead_channel)
       = (0x2BC, zero_smc_return_t,
          \<lparr>dev = dead_channel, calls = [key_info_request apple_smc_h (c_literal ''TC0D'')],
           stdout = []\<rparr>)"
proof -
  let ?out = "zero_SMCParamStruct\<lparr>ps_keyInfo := f_keyInfo absent_key, ps_result := 0x84\<rparr>"
  let ?w = "\<lparr>dev = absent_key, calls = [key_info_request apple_smc_h (c_literal ''TC0D'')],
             stdout = []\<rparr>"
  let ?v = "\<lparr>dev = dead_channel, calls = [key_info_request apple_smc_h (c_literal ''TC0D'')],
             stdout = []\<rparr>"
  have c: "call_smc (fake_call apple_smc_h) (key_info_request apple_smc_h (c_literal ''TC0D''))
             zero_SMCParamStruct (fresh_world absent_key) = (0, ?out, ?w)"
    by (simp add: fake_key_info) (simp add: absent_key_def fresh_world_def)
  have f: "0 \<noteq> kIOReturnSuccess \<or> ps_result ?out \<noteq> kSMCSuccess apple_smc_h"
    by (simp add: apple_smc_h_def)
  have d: "call_smc (fake_call apple_smc_h) (key_info_request apple_smc_h (c_literal ''TC0D''))
             zero_SMCParamStruct (fresh_world dead_channel) = (0x2BC, zero_SMCParamStruct, ?v)"
    by (simp add: fake_key_info) (simp add: dead_channel_def fresh_world_def err_get_code_def)
  have g: "0x2BC \<noteq> kIOReturnSuccess
      \<or> ps_result zero_SMCParamStruct \<noteq> kSMCSuccess apple_smc_h"
    by (simp add: kIOReturnSuccess_def)
  from metadata_failure_stops [OF c f, of "zero_smc_return_t\<lparr>rs_dataSize := 2\<rparr>"] c
    metadata_failure_stops [OF d g, of zero_smc_return_t]
  show ?thesis
    by (simp add: apple_smc_h_def kIOReturnSuccess_def zero_SMCParamStruct_def
        zero_smc_return_t_def)
qed

text \<open>
  C3. For every write transaction whose metadata phase succeeds but whose caller-supplied
  \<open>dataSize\<close> differs from the size the controller reports, \<open>write_smc\<close> returns
  \<open>kIOReturnBadArgument\<close>, and the world is as the metadata call left it: one transport
  call in total, and no payload-phase call.
\<close>

theorem write_size_mismatch:
  assumes "call_smc io (key_info_request h key) zero_SMCParamStruct w = (result, outputStruct, w')"
    and "result = kIOReturnSuccess" and "ps_result outputStruct = kSMCSuccess h"
    and "rs_dataSize result_smc \<noteq> ki_dataSize (ps_keyInfo outputStruct)"
  shows "write_smc h io key result_smc w
           = (kIOReturnBadArgument, result_smc\<lparr>rs_kSMC := ps_result outputStruct\<rparr>, w')
       \<and> calls w' = calls w @ [key_info_request h key]"
  using assms call_smc_calls(1) [OF assms(1)]
  by (auto simp add: write_smc_phases)

theorem write_size_mismatch_witness:
  "rs_dataSize (zero_smc_return_t\<lparr>rs_dataSize := 4\<rparr>) \<noteq> 2
   \<and> write_smc apple_smc_h (fake_call apple_smc_h) (c_literal ''F0Mn'')
         (zero_smc_return_t\<lparr>rs_dataSize := 4\<rparr>) (fresh_world (sensor 2 0x66706532 []))
       = (kIOReturnBadArgument, zero_smc_return_t\<lparr>rs_dataSize := 4\<rparr>,
          \<lparr>dev = sensor 2 0x66706532 [],
           calls = [key_info_request apple_smc_h (c_literal ''F0Mn'')], stdout = []\<rparr>)"
proof -
  let ?d = "sensor 2 0x66706532 []"
  let ?out = "zero_SMCParamStruct\<lparr>ps_keyInfo := f_keyInfo ?d, ps_result := 0\<rparr>"
  let ?w = "\<lparr>dev = ?d, calls = [key_info_request apple_smc_h (c_literal ''F0Mn'')],
             stdout = []\<rparr>"
  let ?rs = "zero_smc_return_t\<lparr>rs_dataSize := 4\<rparr>"
  have c: "call_smc (fake_call apple_smc_h) (key_info_request apple_smc_h (c_literal ''F0Mn''))
             zero_SMCParamStruct (fresh_world ?d) = (0, ?out, ?w)"
    by (simp add: fake_key_info) (simp add: sensor_def fresh_world_def)
  have r: "0 = kIOReturnSuccess" by (simp add: kIOReturnSuccess_def)
  have s: "ps_result ?out = kSMCSuccess apple_smc_h" by (simp add: apple_smc_h_def)
  have m: "rs_dataSize ?rs \<noteq> ki_dataSize (ps_keyInfo ?out)" by (simp add: sensor_def)
  from write_size_mismatch [OF c r s m] m
  show ?thesis by (simp add: zero_smc_return_t_def sensor_def)
qed

text \<open>
  C4. The result of \<open>get_fan_rpm\<close> does not depend on its \<open>fan_num\<close> argument, and the
  result of \<open>set_fan_min_rpm\<close> does not depend on its \<open>fan_num\<close> (nor on \<open>auth\<close>):
  \<open>get_fan_rpm\<close> is a read of the literal key \<open>F0Ac\<close>, every request it issues carries
  that key's code \<open>0x46304163\<close>, and every request of \<open>set_fan_min_rpm\<close> carries the code
  \<open>0x46304D6E\<close> of \<open>F0Mn\<close>.
\<close>

theorem fan_num_ignored:
  "get_fan_rpm h io i w = get_fan_rpm h io j w
   \<and> set_fan_min_rpm h io i rpm auth w = set_fan_min_rpm h io j rpm auth' w
   \<and> get_fan_rpm h io i w
       = (let (result, result_smc, w') = read_smc h io (c_literal ''F0Ac'') w
          in (if result = kIOReturnSuccess \<and> rs_dataSize result_smc = 2
                 \<and> strcmp (rs_dataType result_smc) DATA_TYPE_FPE2 = 0
              then from_fpe2 (rs_data result_smc) else 0, w'))
   \<and> map ps_key (drop (length (calls w)) (calls (snd (get_fan_rpm h io i w))))
         \<in> {[0x46304163], [0x46304163, 0x46304163]}
   \<and> map ps_key (drop (length (calls w)) (calls (snd (set_fan_min_rpm h io i rpm auth w))))
         \<in> {[0x46304D6E], [0x46304D6E, 0x46304D6E]}"
proof -
  obtain r rs w' where rd: "read_smc h io (c_literal ''F0Ac'') w = (r, rs, w')"
    by (cases "read_smc h io (c_literal ''F0Ac'') w") auto
  obtain r2 rs2 w2 where wr: "write_smc h io (c_literal ''F0Mn'')
      (zero_smc_return_t\<lparr>rs_dataSize := 2, rs_data := to_fpe2 rpm (replicate 32 0)\<rparr>) w
        = (r2, rs2, w2)"
    by (cases "write_smc h io (c_literal ''F0Mn'')
      (zero_smc_return_t\<lparr>rs_dataSize := 2, rs_data := to_fpe2 rpm (replicate 32 0)\<rparr>) w") auto
  have g: "snd (get_fan_rpm h io i w) = w'"
    using rd by (simp add: get_fan_rpm_def)
  have s: "snd (set_fan_min_rpm h io i rpm auth w) = w2"
    using wr by (simp add: set_fan_min_rpm_def Let_def zero_smc_return_t_def)
  show ?thesis
    using read_smc_keys [OF rd] write_smc_keys [OF wr]
    by (simp add: g s key_F0Ac key_F0Mn) (simp add: get_fan_rpm_def set_fan_min_rpm_def rd)
qed

theorem fan_num_ignored_witness:
  "get_fan_rpm apple_smc_h (fake_call apple_smc_h) 1 (fresh_world (sensor 2 0x66706532 [0x10, 0]))
     = get_fan_rpm apple_smc_h (fake_call apple_smc_h) 0 (fresh_world (sensor 2 0x66706532 [0x10, 0]))
   \<and> fst (get_fan_rpm apple_smc_h (fake_call apple_smc_h) 1
         (fresh_world (sensor 2 0x66706532 [0x10, 0]))) = 1024
   \<and> map ps_key (calls (snd (get_fan_rpm apple_smc_h (fake_call apple_smc_h) 1
         (fresh_world (sensor 2 0x66706532 [0x10, 0]))))) = [0x46304163, 0x46304163]"
proof -
  let ?w = "fresh_world (sensor 2 0x66706532 [0x10, 0])"
  let ?W = "\<lparr>dev = sensor 2 0x66706532 [0x10, 0],
             calls = [key_info_request apple_smc_h (c_literal ''F0Ac''),
                      read_key_request apple_smc_h (c_literal ''F0Ac'') 2],
             stdout = []\<rparr>"
  note t = fan_num_ignored [of apple_smc_h "fake_call apple_smc_h" 1 ?w 0 0 False False]
  from t have e: "get_fan_rpm apple_smc_h (fake_call apple_smc_h) 1 ?w
      = get_fan_rpm apple_smc_h (fake_call apple_smc_h) 0 ?w"
    by (rule conjunct1)
  from t [THEN conjunct2, THEN conjunct2, THEN conjunct1]
  have v: "get_fan_rpm apple_smc_h (fake_call apple_smc_h) 1 ?w = (1024, ?W)"
    using read_fake_sensor [where key = "c_literal ''F0Ac''" and n = 2 and t = "0x66706532"
        and payload = "[0x10, 0]" and st = 0]
    by (simp add: sensor_healthy to_string_fpe2 strcmp_fpe2 from_fpe2_def kIOReturnSuccess_def)
  show ?thesis
    by (simp only: e [symmetric] v)
      (simp add: key_info_request_def read_key_request_def key_F0Ac)
qed

text \<open>
  C6. \<open>is_key_valid\<close> returns true if and only if the read transaction's channel status
  and protocol status both report success. For a key of 4 characters the answer is that of
  the read and nothing is printed, so a key the controller does not know gives \<open>false\<close>;
  for a key whose length is not 4 the answer is \<open>false\<close>, the error line is printed, and
  the transport is not called.
\<close>

theorem is_key_valid_spec:
  assumes "read_smc h io key w = (result, result_smc, w')"
  shows "is_key_valid h io key w
           = (if strlen key = SMC_KEY_SIZE
              then (result = kIOReturnSuccess \<and> rs_kSMC result_smc = kSMCSuccess h, w')
              else (False, w\<lparr>stdout := stdout w
                      @ ''ERROR: Invalid key size - must be 4 chars'' @ [CHR 0x0A]\<rparr>))
       \<and> stdout w' = stdout w"
  using assms read_smc_stdout [OF assms]
  by (simp add: is_key_valid_def)

theorem is_key_valid_spec_witness:
  "is_key_valid apple_smc_h (fake_call apple_smc_h) (c_literal ''TC0D'')
       (fresh_world (sensor 2 0x73703738 [50, 0]))
     = (True, \<lparr>dev = sensor 2 0x73703738 [50, 0],
               calls = [key_info_request apple_smc_h (c_literal ''TC0D''),
                        read_key_request apple_smc_h (c_literal ''TC0D'') 2],
               stdout = []\<rparr>)
   \<and> is_key_valid apple_smc_h (fake_call apple_smc_h) (c_literal ''TC0D'') (fresh_world absent_key)
     = (False, \<lparr>dev = absent_key,
                calls = [key_info_request apple_smc_h (c_literal ''TC0D'')], stdout = []\<rparr>)
   \<and> is_key_valid apple_smc_h (fake_call apple_smc_h) (c_literal ''TC0'') (fresh_world absent_key)
     = (False, \<lparr>dev = absent_key, calls = [],
                stdout = ''ERROR: Invalid key size - must be 4 chars'' @ [CHR 0x0A]\<rparr>)"
proof -
  have l4: "strlen (c_literal ''TC0D'') = SMC_KEY_SIZE"
    by (simp add: strlen_def c_literal_def SMC_KEY_SIZE_def)
  have l3: "strlen (c_literal ''TC0'') \<noteq> SMC_KEY_SIZE"
    by (simp add: strlen_def c_literal_def SMC_KEY_SIZE_def)
  from is_key_valid_spec [OF read_fake_sensor [where key = "c_literal ''TC0D''" and n = 2
        and t = "0x73703738" and payload = "[50, 0]" and st = 0]]
    is_key_valid_spec [OF read_fake_absent [of "c_literal ''TC0D''"]]
    is_key_valid_spec [OF read_fake_absent [of "c_literal ''TC0''"]]
  show ?thesis
    by (simp add: l4 l3 kIOReturnSuccess_def apple_smc_h_def fresh_world_def sensor_healthy)
qed

text \<open>
  C9. When the read of the fan-speed key succeeds with \<open>dataSize\<close> 2, the type tag
  \<open>fpe2\<close> and payload bytes \<open>[0x10, 0x00]\<close>, \<open>get_fan_rpm\<close> returns 1024; on a channel
  failure, a protocol failure, or a size or type that does not match, it returns 0.
\<close>

theorem get_fan_rpm_spec:
  assumes "read_smc h io (c_literal ''F0Ac'') w = (result, result_smc, w')"
  shows "(result = kIOReturnSuccess \<and> rs_kSMC result_smc = kSMCSuccess h
            \<and> rs_dataSize result_smc = 2
            \<and> strcmp (rs_dataType result_smc) DATA_TYPE_FPE2 = 0
            \<and> take 2 (rs_data result_smc) = [0x10, 0x00]
          \<longrightarrow> get_fan_rpm h io fan_num w = (1024, w'))
       \<and> (result \<noteq> kIOReturnSuccess \<or> rs_kSMC result_smc \<noteq> kSMCSuccess h
            \<or> rs_dataSize result_smc \<noteq> 2
            \<or> strcmp (rs_dataType result_smc) DATA_TYPE_FPE2 \<noteq> 0
          \<longrightarrow> get_fan_rpm h io fan_num w = (0, w'))"
proof (intro conjI impI)
  assume ok: "result = kIOReturnSuccess \<and> rs_kSMC result_smc = kSMCSuccess h
            \<and> rs_dataSize result_smc = 2
            \<and> strcmp (rs_dataType result_smc) DATA_TYPE_FPE2 = 0
            \<and> take 2 (rs_data result_smc) = [0x10, 0x00]"
  then obtain rest where d: "rs_data result_smc = 0x10 # 0x00 # rest"
    by (cases "rs_data result_smc"; cases "tl (rs_data result_smc)") auto
  have "from_fpe2 (rs_data result_smc) = 1024"
    by (simp add: d from_fpe2_def)
  with ok assms show "get_fan_rpm h io fan_num w = (1024, w')"
    by (simp add: get_fan_rpm_def)
next
  assume bad: "result \<noteq> kIOReturnSuccess \<or> rs_kSMC result_smc \<noteq> kSMCSuccess h
            \<or> rs_dataSize result_smc \<noteq> 2
            \<or> strcmp (rs_dataType result_smc) DATA_TYPE_FPE2 \<noteq> 0"
  show "get_fan_rpm h io fan_num w = (0, w')"
  proof (cases "result = kIOReturnSuccess \<and> rs_dataSize result_smc = 2
                 \<and> strcmp (rs_dataType result_smc) DATA_TYPE_FPE2 = 0")
    case True
    with bad have "rs_kSMC result_smc \<noteq> kSMCSuccess h" by simp
    then have "rs_data result_smc = replicate 32 0"
      using read_smc_failed_data [OF assms] by simp
    then have "from_fpe2 (rs_data result_smc) = 0"
      by (simp add: from_fpe2_zero)
    with True assms show ?thesis by (simp add: get_fan_rpm_def)
  next
    case False
    with assms show ?thesis by (auto simp add: get_fan_rpm_def)
  qed
qed

theorem get_fan_rpm_spec_witness:
  "get_fan_rpm apple_smc_h (fake_call apple_smc_h) 0 (fresh_world (sensor 2 0x66706532 [0x10, 0]))
     = (1024, \<lparr>dev = sensor 2 0x66706532 [0x10, 0],
               calls = [key_info_request apple_smc_h (c_literal ''F0Ac''),
                        read_key_request apple_smc_h (c_literal ''F0Ac'') 2],
               stdout = []\<rparr>)
   \<and> get_fan_rpm apple_smc_h (fake_call apple_smc_h) 0
        (fresh_world ((sensor 2 0x66706532 [0x10, 0])\<lparr>f_data_status := 1\<rparr>))
     = (0, \<lparr>dev = (sensor 2 0x66706532 [0x10, 0])\<lparr>f_data_status := 1\<rparr>,
               calls = [key_info_request apple_smc_h (c_literal ''F0Ac''),
                        read_key_request apple_smc_h (c_literal ''F0Ac'') 2],
               stdout = []\<rparr>)
   \<and> get_fan_rpm apple_smc_h (fake_call apple_smc_h) 0 (fresh_world absent_key)
     = (0, \<lparr>dev = absent_key, calls = [key_info_request apple_smc_h (c_literal ''F0Ac'')],
            stdout = []\<rparr>)"
proof -
  from get_fan_rpm_spec [OF read_fake_sensor [where key = "c_literal ''F0Ac''" and n = 2
        and t = "0x66706532" and payload = "[0x10, 0]" and st = 0], of 0]
    get_fan_rpm_spec [OF read_fake_sensor [where key = "c_literal ''F0Ac''" and n = 2
        and t = "0x66706532" and payload = "[0x10, 0]" and st = 1], of 0]
    get_fan_rpm_spec [OF read_fake_absent [of "c_literal ''F0Ac''"], of 0]
  show ?thesis
    by (simp add: kIOReturnSuccess_def apple_smc_h_def to_string_fpe2 strcmp_fpe2 sensor_healthy)
qed

lemma get_tmp_rejects:
  assumes "read_smc h io key w = (result, result_smc, w')"
    and "result \<noteq> kIOReturnSuccess \<or> rs_dataSize result_smc \<noteq> 2"
  shows "get_tmp h io key unit w = (0, w')"
  using assms by (auto simp add: get_tmp_def)

text \<open>
  C10, as amended. \<open>read_smc\<close> zeroes its output record before doing anything. When the
  metadata phase fails, on the channel or by the controller's status, the returned record
  has \<open>dataSize\<close> 0, an all-zero \<open>dataType\<close> and all-zero payload bytes, \<open>kSMC\<close> carries
  that phase's protocol status, and \<open>get_tmp\<close> returns 0 without looking at \<open>kSMC\<close>. When
  the metadata phase succeeds and the data phase fails, the payload bytes are all zero,
  but \<open>dataSize\<close> and \<open>dataType\<close> hold what the controller reported in the metadata
  phase, and \<open>kSMC\<close> carries the data phase's protocol status; if that failure is on the
  channel, \<open>get_tmp\<close> returns 0.
\<close>

theorem read_smc_failure_record:
  assumes "call_smc io (key_info_request h key) zero_SMCParamStruct w = (r1, out1, w1)"
    and "call_smc io (read_key_request h key (ki_dataSize (ps_keyInfo out1))) out1 w1
           = (r2, out2, w2)"
  shows "(r1 \<noteq> kIOReturnSuccess \<or> ps_result out1 \<noteq> kSMCSuccess h \<longrightarrow>
            read_smc h io key w
              = (r1, \<lparr>rs_data = replicate 32 0, rs_dataType = replicate 5 0,
                      rs_dataSize = 0, rs_kSMC = ps_result out1\<rparr>, w1)
            \<and> get_tmp h io key unit w = (0, w1))
       \<and> (r1 = kIOReturnSuccess \<and> ps_result out1 = kSMCSuccess h
            \<and> (r2 \<noteq> kIOReturnSuccess \<or> ps_result out2 \<noteq> kSMCSuccess h) \<longrightarrow>
            read_smc h io key w
              = (r2, \<lparr>rs_data = replicate 32 0,
                      rs_dataType = to_string (ki_dataType (ps_keyInfo out1)) (replicate 5 0),
                      rs_dataSize = ki_dataSize (ps_keyInfo out1),
                      rs_kSMC = ps_result out2\<rparr>, w2))
       \<and> (r1 = kIOReturnSuccess \<and> ps_result out1 = kSMCSuccess h \<and> r2 \<noteq> kIOReturnSuccess \<longrightarrow>
            get_tmp h io key unit w = (0, w2))"
proof (intro conjI impI)
  assume f1: "r1 \<noteq> kIOReturnSuccess \<or> ps_result out1 \<noteq> kSMCSuccess h"
  with assms(1) show rd: "read_smc h io key w
      = (r1, \<lparr>rs_data = replicate 32 0, rs_dataType = replicate 5 0,
              rs_dataSize = 0, rs_kSMC = ps_result out1\<rparr>, w1)"
    by (auto simp add: read_smc_phases zero_smc_return_t_def)
  show "get_tmp h io key unit w = (0, w1)"
    by (rule get_tmp_rejects [OF rd]) simp
next
  assume f2: "r1 = kIOReturnSuccess \<and> ps_result out1 = kSMCSuccess h
            \<and> (r2 \<noteq> kIOReturnSuccess \<or> ps_result out2 \<noteq> kSMCSuccess h)"
  with assms show "read_smc h io key w
      = (r2, \<lparr>rs_data = replicate 32 0,
              rs_dataType = to_string (ki_dataType (ps_keyInfo out1)) (replicate 5 0),
              rs_dataSize = ki_dataSize (ps_keyInfo out1),
              rs_kSMC = ps_result out2\<rparr>, w2)"
    by (auto simp add: read_smc_phases)
next
  assume f3: "r1 = kIOReturnSuccess \<and> ps_result out1 = kSMCSuccess h \<and> r2 \<noteq> kIOReturnSuccess"
  with assms have rd: "read_smc h io key w
      = (r2, \<lparr>rs_data = replicate 32 0,
              rs_dataType = to_string (ki_dataType (ps_keyInfo out1)) (replicate 5 0),
              rs_dataSize = ki_dataSize (ps_keyInfo out1),
              rs_kSMC = ps_result out2\<rparr>, w2)"
    by (auto simp add: read_smc_phases)
  show "get_tmp h io key unit w = (0, w2)"
    by (rule get_tmp_rejects [OF rd]) (simp add: f3)
qed

lemma triple_collapse: "x = (fst x, fst (snd x), snd (snd x))"
  by simp

lemma get_tmp_fake_sensor:
  "get_tmp apple_smc_h (fake_call apple_smc_h) key unit
       (fresh_world ((sensor 2 0x73703738 payload)\<lparr>f_data_status := st\<rparr>))
     = (let tmp = (if st = 0 then real (unat ((payload @ replicate (32 - length payload) 0) ! 0))
                   else 0)
        in case unit of CELSIUS \<Rightarrow> tmp | FAHRENHEIT \<Rightarrow> to_fahrenheit tmp
           | KELVIN \<Rightarrow> to_kelvin tmp,
        \<lparr>dev = (sensor 2 0x73703738 payload)\<lparr>f_data_status := st\<rparr>,
         calls = [key_info_request apple_smc_h key, read_key_request apple_smc_h key 2],
         stdout = []\<rparr>)"
  by (simp add: get_tmp_def read_fake_sensor to_string_sp78 strcmp_sp78 kIOReturnSuccess_def
      Let_def split: tmp_unit_t.split)

theorem read_smc_failure_record_witness:
  "read_smc apple_smc_h (fake_call apple_smc_h) (c_literal ''TC0D'') (fresh_world absent_key)
     = (0, \<lparr>rs_data = replicate 32 0, rs_dataType = replicate 5 0, rs_dataSize = 0,
            rs_kSMC = 0x84\<rparr>,
        \<lparr>dev = absent_key, calls = [key_info_request apple_smc_h (c_literal ''TC0D'')],
         stdout = []\<rparr>)
   \<and> get_tmp apple_smc_h (fake_call apple_smc_h) (c_literal ''TC0D'') KELVIN
        (fresh_world absent_key)
     = (0, \<lparr>dev = absent_key, calls = [key_info_request apple_smc_h (c_literal ''TC0D'')],
            stdout = []\<rparr>)
   \<and> read_smc apple_smc_h (fake_call apple_smc_h) (c_literal ''TC0D'')
        (fresh_world ((sensor 2 0x73703738 [50, 0])\<lparr>f_data_status := 1\<rparr>))
     = (0, \<lparr>rs_data = replicate 32 0, rs_dataType = c_literal ''sp78'' @ [0], rs_dataSize = 2,
            rs_kSMC = 1\<rparr>,
        \<lparr>dev = (sensor 2 0x73703738 [50, 0])\<lparr>f_data_status := 1\<rparr>,
         calls = [key_info_request apple_smc_h (c_literal ''TC0D''),
                  read_key_request apple_smc_h (c_literal ''TC0D'') 2],
         stdout = []\<rparr>)
   \<and> get_tmp apple_smc_h (fake_call apple_smc_h) (c_literal ''TC0D'') KELVIN
        (fresh_world ((sensor 2 0x73703738 [50, 0])\<lparr>f_data_return := 0xE00002BC\<rparr>))
     = (0, \<lparr>dev = (sensor 2 0x73703738 [50, 0])\<lparr>f_data_return := 0xE00002BC\<rparr>,
            calls = [key_info_request apple_smc_h (c_literal ''TC0D''),
                     read_key_request apple_smc_h (c_literal ''TC0D'') 2],
            stdout = []\<rparr>)"
proof -
  note a = read_smc_failure_record [where h = apple_smc_h and io = "fake_call apple_smc_h"
      and key = "c_literal ''TC0D''" and w = "fresh_world absent_key" and unit = KELVIN,
      OF triple_collapse triple_collapse]
  note b = read_smc_failure_record [where h = apple_smc_h and io = "fake_call apple_smc_h"
      and key = "c_literal ''TC0D''"
      and w = "fresh_world ((sensor 2 0x73703738 [50, 0])\<lparr>f_data_status := 1\<rparr>)"
      and unit = KELVIN, OF triple_collapse triple_collapse]
  note c = read_smc_failure_record [where h = apple_smc_h and io = "fake_call apple_smc_h"
      and key = "c_literal ''TC0D''"
      and w = "fresh_world ((sensor 2 0x73703738 [50, 0])\<lparr>f_data_return := 0xE00002BC\<rparr>)"
      and unit = KELVIN, OF triple_collapse triple_collapse]
  have a': "read_smc apple_smc_h (fake_call apple_smc_h) (c_literal ''TC0D'') (fresh_world absent_key)
     = (0, \<lparr>rs_data = replicate 32 0, rs_dataType = replicate 5 0, rs_dataSize = 0,
            rs_kSMC = 0x84\<rparr>,
        \<lparr>dev = absent_key, calls = [key_info_request apple_smc_h (c_literal ''TC0D'')],
         stdout = []\<rparr>)
   \<and> get_tmp apple_smc_h (fake_call apple_smc_h) (c_literal ''TC0D'') KELVIN
        (fresh_world absent_key)
     = (0, \<lparr>dev = absent_key, calls = [key_info_request apple_smc_h (c_literal ''TC0D'')],
            stdout = []\<rparr>)"
    using a [THEN conjunct1]
    by (simp add: fake_key_info absent_key_def kSMCSuccess_apple kIOReturnSuccess_def
        fresh_world_def)
  have b': "read_smc apple_smc_h (fake_call apple_smc_h) (c_literal ''TC0D'')
        (fresh_world ((sensor 2 0x73703738 [50, 0])\<lparr>f_data_status := 1\<rparr>))
     = (0, \<lparr>rs_data = replicate 32 0, rs_dataType = c_literal ''sp78'' @ [0], rs_dataSize = 2,
            rs_kSMC = 1\<rparr>,
        \<lparr>dev = (sensor 2 0x73703738 [50, 0])\<lparr>f_data_status := 1\<rparr>,
         calls = [key_info_request apple_smc_h (c_literal ''TC0D''),
                  read_key_request apple_smc_h (c_literal ''TC0D'') 2],
         stdout = []\<rparr>)"
    using b [THEN conjunct2, THEN conjunct1]
    by (simp add: fake_key_info fake_read_key sensor_def kSMCSuccess_apple kIOReturnSuccess_def
        to_string_sp78 fresh_world_def)
  have c': "get_tmp apple_smc_h (fake_call apple_smc_h) (c_literal ''TC0D'') KELVIN
        (fresh_world ((sensor 2 0x73703738 [50, 0])\<lparr>f_data_return := 0xE00002BC\<rparr>))
     = (0, \<lparr>dev = (sensor 2 0x73703738 [50, 0])\<lparr>f_data_return := 0xE00002BC\<rparr>,
            calls = [key_info_request apple_smc_h (c_literal ''TC0D''),
                     read_key_request apple_smc_h (c_literal ''TC0D'') 2],
            stdout = []\<rparr>)"
    using c [THEN conjunct2, THEN conjunct2]
    by (simp add: fake_key_info fake_read_key sensor_def kSMCSuccess_apple kIOReturnSuccess_def
        err_get_code_def fresh_world_def)
  from a' b' c' show ?thesis by simp
qed

text \<open>
  The claim as stated fails when the data phase fails: the controller reports a 2-byte
  \<open>sp78\<close> key and then answers the read with status 1. The returned record has
  \<open>dataSize\<close> 2 and \<open>dataType\<close> \<open>sp78\<close>, not zeros, and \<open>get_tmp\<close> does not reject the
  read: asked for Fahrenheit, it returns 32.
\<close>

theorem read_smc_failure_record_counterexample:
  "(1 :: uint8_t) \<noteq> kSMCSuccess apple_smc_h
   \<and> read_smc apple_smc_h (fake_call apple_smc_h) (c_literal ''TC0D'')
        (fresh_world ((sensor 2 0x73703738 [50, 0])\<lparr>f_data_status := 1\<rparr>))
     = (0, \<lparr>rs_data = replicate 32 0, rs_dataType = c_literal ''sp78'' @ [0], rs_dataSize = 2,
            rs_kSMC = 1\<rparr>,
        \<lparr>dev = (sensor 2 0x73703738 [50, 0])\<lparr>f_data_status := 1\<rparr>,
         calls = [key_info_request apple_smc_h (c_literal ''TC0D''),
                  read_key_request apple_smc_h (c_literal ''TC0D'') 2],
         stdout = []\<rparr>)
   \<and> fst (get_tmp apple_smc_h (fake_call apple_smc_h) (c_literal ''TC0D'') FAHRENHEIT
        (fresh_world ((sensor 2 0x73703738 [50, 0])\<lparr>f_data_status := 1\<rparr>))) = 32"
  by (simp add: read_fake_sensor get_tmp_fake_sensor to_string_sp78 to_fahrenheit_def
      kSMCSuccess_apple)

text \<open>
  C5, at the input where the code departs from it. The controller reports a 2-byte
  \<open>sp78\<close> key and then answers the read with the status 1 (not success) on a channel that
  reports success. The read has failed, and \<open>get_tmp\<close> returns 32 for Fahrenheit and
  273.15 for Kelvin instead of 0. On that run every \<open>double\<close> operation of the Fahrenheit
  conversion is exact (\<open>0 * 1.8 = 0\<close>, \<open>0 + 32 = 32\<close>).
\<close>

theorem get_tmp_data_phase_failure:
  "get_tmp apple_smc_h (fake_call apple_smc_h) (c_literal ''TC0D'') FAHRENHEIT
        (fresh_world ((sensor 2 0x73703738 [50, 0])\<lparr>f_data_status := 1\<rparr>))
     = (32, \<lparr>dev = (sensor 2 0x73703738 [50, 0])\<lparr>f_data_status := 1\<rparr>,
             calls = [key_info_request apple_smc_h (c_literal ''TC0D''),
                      read_key_request apple_smc_h (c_literal ''TC0D'') 2],
             stdout = []\<rparr>)
   \<and> fst (get_tmp apple_smc_h (fake_call apple_smc_h) (c_literal ''TC0D'') KELVIN
        (fresh_world ((sensor 2 0x73703738 [50, 0])\<lparr>f_data_status := 1\<rparr>))) = 273.15
   \<and> fst (get_tmp apple_smc_h (fake_call apple_smc_h) (c_literal ''TC0D'') CELSIUS
        (fresh_world ((sensor 2 0x73703738 [50, 0])\<lparr>f_data_status := 1\<rparr>))) = 0"
  by (simp add: get_tmp_fake_sensor to_fahrenheit_def to_kelvin_def)

text \<open>
  The other runs of the claim, where the code agrees with it (with \<open>double\<close> arithmetic
  taken as real arithmetic): a successful read of the byte 50, and a controller that does
  not know the key.
\<close>

lemma get_tmp_reads_50:
  "fst (get_tmp apple_smc_h (fake_call apple_smc_h) (c_literal ''TC0D'') CELSIUS
        (fresh_world (sensor 2 0x73703738 [50, 0]))) = 50
   \<and> fst (get_tmp apple_smc_h (fake_call apple_smc_h) (c_literal ''TC0D'') FAHRENHEIT
        (fresh_world (sensor 2 0x73703738 [50, 0]))) = 122
   \<and> fst (get_tmp apple_smc_h (fake_call apple_smc_h) (c_literal ''TC0D'') KELVIN
        (fresh_world (sensor 2 0x73703738 [50, 0]))) = 323.15"
  using get_tmp_fake_sensor [where st = 0 and payload = "[50, 0]"]
  by (simp add: sensor_healthy to_fahrenheit_def to_kelvin_def)

end
